theory Spec2Isabelle
  imports Complex_Main "HOL-Library.Monad_Syntax"
begin

section \<open>Scalars, fixed-size vectors and matrices\<close>

text \<open>
  The functions of \<^verbatim>\<open>sophus_utils.hpp\<close> are templates over a scalar type. Here the
  scalar is the field of real numbers with the exact \<open>sqrt\<close>, \<open>sin\<close> and \<open>cos\<close>:
  rounding is not part of this model. A division of the source is a fallible step: dividing
  by zero yields no real number (the machine writes an infinity or a NaN), which is the value
  \<open>None\<close>.

  A 3-vector is a triple, a 3x3 matrix the triple of its rows, a 6-vector a 6-tuple.
\<close>

type_synonym vec3 = "real \<times> real \<times> real"

type_synonym mat3 = "vec3 \<times> vec3 \<times> vec3"

type_synonym vec6 = "real \<times> real \<times> real \<times> real \<times> real \<times> real"

definition scalar_div :: "real \<Rightarrow> real \<Rightarrow> real option" where
  "scalar_div a b = (if b = 0 then None else Some (a / b))"

text \<open>
  Modelled from the spec: the numeric substrate (Eigen) is not part of the sources. These
  are its operations that the code calls: squared norm, norm and scalar multiple of a
  3-vector, identity and zero matrix, sum, difference and product of 3x3 matrices, a matrix
  times a scalar and a matrix divided by a scalar.
\<close>

fun squaredNorm :: "vec3 \<Rightarrow> real" where
  "squaredNorm (x, y, z) = x * x + y * y + z * z"

fun vec_smul :: "real \<Rightarrow> vec3 \<Rightarrow> vec3" where
  "vec_smul s (x, y, z) = (s * x, s * y, s * z)"

definition vec_norm :: "vec3 \<Rightarrow> real" where
  "vec_norm phi = sqrt (squaredNorm phi)"

definition mat_identity :: mat3 where
  "mat_identity = ((1, 0, 0), (0, 1, 0), (0, 0, 1))"

definition mat_zero :: mat3 where
  "mat_zero = ((0, 0, 0), (0, 0, 0), (0, 0, 0))"

fun mat_map :: "(real \<Rightarrow> real) \<Rightarrow> mat3 \<Rightarrow> mat3" where
  "mat_map f ((a, b, c), (d, e, g), (h, i, j)) =
     ((f a, f b, f c), (f d, f e, f g), (f h, f i, f j))"

fun mat_add :: "mat3 \<Rightarrow> mat3 \<Rightarrow> mat3" where
  "mat_add ((a, b, c), (d, e, g), (h, i, j)) ((a', b', c'), (d', e', g'), (h', i', j')) =
     ((a + a', b + b', c + c'), (d + d', e + e', g + g'), (h + h', i + i', j + j'))"

fun mat_sub :: "mat3 \<Rightarrow> mat3 \<Rightarrow> mat3" where
  "mat_sub ((a, b, c), (d, e, g), (h, i, j)) ((a', b', c'), (d', e', g'), (h', i', j')) =
     ((a - a', b - b', c - c'), (d - d', e - e', g - g'), (h - h', i - i', j - j'))"

fun mat_mul :: "mat3 \<Rightarrow> mat3 \<Rightarrow> mat3" where
  "mat_mul ((a, b, c), (d, e, g), (h, i, j)) ((a', b', c'), (d', e', g'), (h', i', j')) =
     ((a * a' + b * d' + c * h', a * b' + b * e' + c * i', a * c' + b * g' + c * j'),
      (d * a' + e * d' + g * h', d * b' + e * e' + g * i', d * c' + e * g' + g * j'),
      (h * a' + i * d' + j * h', h * b' + i * e' + j * i', h * c' + i * g' + j * j'))"

definition mat_smul :: "mat3 \<Rightarrow> real \<Rightarrow> mat3" where
  "mat_smul M s = mat_map (\<lambda>a. a * s) M"

definition mat_div :: "mat3 \<Rightarrow> real \<Rightarrow> mat3 option" where
  "mat_div M s = (if s = 0 then None else Some (mat_map (\<lambda>a. a / s) M))"

text \<open>
  Modelled from the spec: the hat operator of the rotation-group primitive (Sophus) is not
  part of the sources. It maps a 3-vector to the skew-symmetric matrix of its cross product.
\<close>

fun hat :: "vec3 \<Rightarrow> mat3" where
  "hat (x, y, z) = ((0, - z, y), (z, 0, - x), (- y, x, 0))"

section \<open>Jacobians of SO(3)\<close>

text \<open>
  The four functions take the threshold \<^verbatim>\<open>Sophus::Constants<Scalar>::epsilon()\<close>, a constant
  of the Sophus library, as their first argument \<open>epsilon\<close>. The out-parameter \<open>J_phi\<close>
  becomes the result. Each function computes the squared norm, its root and (in two of
  them) the cube, sets \<open>J\<close> to the identity and, behind the test \<open>epsilon < phi_norm\<close>,
  adds the two correction terms.
\<close>

definition rightJacobianSO3 :: "real \<Rightarrow> vec3 \<Rightarrow> mat3 option" where
  "rightJacobianSO3 epsilon phi =
     (let phi_norm2 = squaredNorm phi;
          phi_norm = sqrt phi_norm2;
          phi_norm3 = phi_norm2 * phi_norm;
          J = mat_identity
      in if epsilon < phi_norm then
           (let phi_hat = hat phi;
                phi_hat2 = mat_mul phi_hat phi_hat
            in do {
                 t1 \<leftarrow> mat_div (mat_smul phi_hat (1 - cos phi_norm)) phi_norm2;
                 let J = mat_sub J t1;
                 t2 \<leftarrow> mat_div (mat_smul phi_hat2 (phi_norm - sin phi_norm)) phi_norm3;
                 Some (mat_add J t2)
               })
         else Some J)"

definition rightJacobianInvSO3 :: "real \<Rightarrow> vec3 \<Rightarrow> mat3 option" where
  "rightJacobianInvSO3 epsilon phi =
     (let phi_norm2 = squaredNorm phi;
          phi_norm = sqrt phi_norm2;
          J = mat_identity
      in if epsilon < phi_norm then
           (let phi_hat = hat phi;
                phi_hat2 = mat_mul phi_hat phi_hat
            in do {
                 t1 \<leftarrow> mat_div phi_hat 2;
                 let J = mat_add J t1;
                 a \<leftarrow> scalar_div 1 phi_norm2;
                 b \<leftarrow> scalar_div (1 + cos phi_norm) (2 * phi_norm * sin phi_norm);
                 Some (mat_add J (mat_smul phi_hat2 (a - b)))
               })
         else Some J)"

definition leftJacobianSO3 :: "real \<Rightarrow> vec3 \<Rightarrow> mat3 option" where
  "leftJacobianSO3 epsilon phi =
     (let phi_norm2 = squaredNorm phi;
          phi_norm = sqrt phi_norm2;
          phi_norm3 = phi_norm2 * phi_norm;
          J = mat_identity
      in if epsilon < phi_norm then
           (let phi_hat = hat phi;
                phi_hat2 = mat_mul phi_hat phi_hat
            in do {
                 t1 \<leftarrow> mat_div (mat_smul phi_hat (1 - cos phi_norm)) phi_norm2;
                 let J = mat_add J t1;
                 t2 \<leftarrow> mat_div (mat_smul phi_hat2 (phi_norm - sin phi_norm)) phi_norm3;
                 Some (mat_add J t2)
               })
         else Some J)"

definition leftJacobianInvSO3 :: "real \<Rightarrow> vec3 \<Rightarrow> mat3 option" where
  "leftJacobianInvSO3 epsilon phi =
     (let phi_norm2 = squaredNorm phi;
          phi_norm = sqrt phi_norm2;
          J = mat_identity
      in if epsilon < phi_norm then
           (let phi_hat = hat phi;
                phi_hat2 = mat_mul phi_hat phi_hat
            in do {
                 t1 \<leftarrow> mat_div phi_hat 2;
                 let J = mat_sub J t1;
                 a \<leftarrow> scalar_div 1 phi_norm2;
                 b \<leftarrow> scalar_div (1 + cos phi_norm) (2 * phi_norm * sin phi_norm);
                 Some (mat_add J (mat_smul phi_hat2 (a - b)))
               })
         else Some J)"

section \<open>Rotations and rigid transforms\<close>

text \<open>
  Modelled from the spec: the rotation-group and rigid-transform primitives (SO(3) and SE(3)
  of Sophus) are not part of the sources. A rotation is held as a unit quaternion with scalar
  part \<open>q_w\<close> and vector part \<open>q_vec\<close>; a rigid transform is a rotation and a translation.
  \<open>so3_exp\<close> is the exponential map (the rotation by the angle \<open>\<parallel>omega\<parallel>\<close> about
  \<open>omega\<close>), \<open>so3_log\<close> the logarithm with angle in \<open>(-pi, pi]\<close>, \<open>so3_inverse\<close> the
  inverse rotation and \<open>so3_matrix\<close> the matrix form. They are the exact maps: the series
  that the library evaluates for small angles approximates them and is not modelled.
\<close>

record so3 =
  q_w :: real
  q_vec :: vec3

record se3 =
  so3 :: so3
  translation :: vec3

definition unit_so3 :: "so3 \<Rightarrow> bool" where
  "unit_so3 q \<longleftrightarrow> (q_w q)\<^sup>2 + squaredNorm (q_vec q) = 1"

definition so3_exp :: "vec3 \<Rightarrow> so3" where
  "so3_exp omega =
     (let theta = vec_norm omega
      in if theta = 0 then \<lparr>q_w = 1, q_vec = (0, 0, 0)\<rparr>
         else \<lparr>q_w = cos (theta / 2), q_vec = vec_smul (sin (theta / 2) / theta) omega\<rparr>)"

definition so3_log :: "so3 \<Rightarrow> vec3" where
  "so3_log q =
     (let n = vec_norm (q_vec q); w = q_w q
      in if n = 0 then (0, 0, 0)
         else if w = 0 then vec_smul (pi / n) (q_vec q)
         else vec_smul (2 * arctan (n / w) / n) (q_vec q))"

definition so3_inverse :: "so3 \<Rightarrow> so3" where
  "so3_inverse q = \<lparr>q_w = q_w q, q_vec = vec_smul (- 1) (q_vec q)\<rparr>"

definition so3_matrix :: "so3 \<Rightarrow> mat3" where
  "so3_matrix q =
     (case q_vec q of (x, y, z) \<Rightarrow>
        let w = q_w q
        in ((1 - 2 * (y * y + z * z), 2 * (x * y - z * w), 2 * (x * z + y * w)),
            (2 * (x * y + z * w), 1 - 2 * (x * x + z * z), 2 * (y * z - x * w)),
            (2 * (x * z - y * w), 2 * (y * z + x * w), 1 - 2 * (x * x + y * y))))"

section \<open>Decoupled logarithm and exponential of SE(3)\<close>

text \<open>
  A tangent of SE(3) is a 6-vector; \<open>head3\<close> and \<open>tail3\<close> read its first and last three
  components, \<open>set_head3\<close> and \<open>set_tail3\<close> assign them.
\<close>

fun head3 :: "vec6 \<Rightarrow> vec3" where
  "head3 (a, b, c, d, e, g) = (a, b, c)"

fun tail3 :: "vec6 \<Rightarrow> vec3" where
  "tail3 (a, b, c, d, e, g) = (d, e, g)"

fun set_head3 :: "vec6 \<Rightarrow> vec3 \<Rightarrow> vec6" where
  "set_head3 (a, b, c, d, e, g) (x, y, z) = (x, y, z, d, e, g)"

fun set_tail3 :: "vec6 \<Rightarrow> vec3 \<Rightarrow> vec6" where
  "set_tail3 (a, b, c, d, e, g) (x, y, z) = (a, b, c, x, y, z)"

text \<open>
  \<open>logd\<close> declares the tangent and assigns its tail, then its head. The declared vector is
  not initialised in the source; both halves are overwritten, and the model starts from zero.
\<close>

definition logd :: "se3 \<Rightarrow> vec6" where
  "logd T =
     (let upsilon_omega = (0, 0, 0, 0, 0, 0);
          upsilon_omega = set_tail3 upsilon_omega (so3_log (so3 T));
          upsilon_omega = set_head3 upsilon_omega (translation T)
      in upsilon_omega)"

definition expd :: "vec6 \<Rightarrow> se3" where
  "expd upsilon_omega =
     \<lparr>so3 = so3_exp (tail3 upsilon_omega), translation = head3 upsilon_omega\<rparr>"

section \<open>Jacobians of decoupled SE(3)\<close>

text \<open>
  The two functions write into a 6x6 matrix that they first set to zero: a Jacobian of
  SO(3) writes the bottom-right block through its out-parameter, and the top-left block is
  assigned afterwards, whatever the first call did. An entry of the 6x6 matrix is a real
  number or, where a division by zero went into it, no real number: the value \<open>None\<close>.
  The matrix is the list of its six rows, each a list of six entries; its corner blocks are
  read and written entry by entry.

  \<open>real_block\<close> is a block of real entries. \<open>written_block\<close> is what a Jacobian of SO(3)
  leaves in its out-parameter: its result when every division had a nonzero denominator,
  and otherwise nine entries that are no real numbers, since the quotient is a factor or a
  summand of a term that the function adds to each of the nine entries.
\<close>

type_synonym entry = "real option"

type_synonym block3 =
  "(entry \<times> entry \<times> entry) \<times> (entry \<times> entry \<times> entry) \<times> (entry \<times> entry \<times> entry)"

type_synonym mat6 = "entry list list"

fun real_block :: "mat3 \<Rightarrow> block3" where
  "real_block ((a, b, c), (d, e, g), (h, i, j)) =
     ((Some a, Some b, Some c), (Some d, Some e, Some g), (Some h, Some i, Some j))"

definition written_block :: "mat3 option \<Rightarrow> block3" where
  "written_block r =
     (case r of
        Some M \<Rightarrow> real_block M
      | None \<Rightarrow> ((None, None, None), (None, None, None), (None, None, None)))"

definition mat6_zero :: mat6 where
  "mat6_zero = replicate 6 (replicate 6 (Some 0))"

fun get_row3 :: "nat \<Rightarrow> entry list \<Rightarrow> entry \<times> entry \<times> entry" where
  "get_row3 c row = (row ! c, row ! (c + 1), row ! (c + 2))"

fun set_row3 :: "nat \<Rightarrow> entry \<times> entry \<times> entry \<Rightarrow> entry list \<Rightarrow> entry list" where
  "set_row3 c (x, y, z) row = row[c := x, c + 1 := y, c + 2 := z]"

fun get_block3 :: "nat \<Rightarrow> nat \<Rightarrow> mat6 \<Rightarrow> block3" where
  "get_block3 r c M = (get_row3 c (M ! r), get_row3 c (M ! (r + 1)), get_row3 c (M ! (r + 2)))"

fun set_block3 :: "nat \<Rightarrow> nat \<Rightarrow> block3 \<Rightarrow> mat6 \<Rightarrow> mat6" where
  "set_block3 r c (r0, r1, r2) M =
     M[r := set_row3 c r0 (M ! r),
       r + 1 := set_row3 c r1 (M ! (r + 1)),
       r + 2 := set_row3 c r2 (M ! (r + 2))]"

definition topLeftCorner :: "mat6 \<Rightarrow> block3" where
  "topLeftCorner = get_block3 0 0"

definition topRightCorner :: "mat6 \<Rightarrow> block3" where
  "topRightCorner = get_block3 0 3"

definition bottomLeftCorner :: "mat6 \<Rightarrow> block3" where
  "bottomLeftCorner = get_block3 3 0"

definition bottomRightCorner :: "mat6 \<Rightarrow> block3" where
  "bottomRightCorner = get_block3 3 3"

definition rightJacobianSE3Decoupled :: "real \<Rightarrow> vec6 \<Rightarrow> mat6" where
  "rightJacobianSE3Decoupled epsilon phi =
     (let J = mat6_zero;
          omega = tail3 phi;
          J = set_block3 3 3 (written_block (rightJacobianSO3 epsilon omega)) J;
          J = set_block3 0 0 (real_block (so3_matrix (so3_inverse (so3_exp omega)))) J
      in J)"

definition rightJacobianInvSE3Decoupled :: "real \<Rightarrow> vec6 \<Rightarrow> mat6" where
  "rightJacobianInvSE3Decoupled epsilon phi =
     (let J = mat6_zero;
          omega = tail3 phi;
          J = set_block3 3 3 (written_block (rightJacobianInvSO3 epsilon omega)) J;
          J = set_block3 0 0 (real_block (so3_matrix (so3_exp omega))) J
      in J)"

section \<open>The formulas of the specification\<close>

text \<open>
  The closed forms as the specification writes them, with \<open>vec_norm\<close> for the norm: the
  identity when the norm is at or below the threshold, and otherwise the identity plus a
  multiple of \<open>hat phi\<close> and a multiple of its square.
\<close>

definition rightJacobianSO3_spec :: "real \<Rightarrow> vec3 \<Rightarrow> mat3" where
  "rightJacobianSO3_spec epsilon phi =
     (if vec_norm phi \<le> epsilon then mat_identity
      else mat_add
             (mat_sub mat_identity
                (mat_smul (hat phi) ((1 - cos (vec_norm phi)) / (vec_norm phi)\<^sup>2)))
             (mat_smul (mat_mul (hat phi) (hat phi))
                ((vec_norm phi - sin (vec_norm phi)) / (vec_norm phi) ^ 3)))"

definition rightJacobianInvSO3_spec :: "real \<Rightarrow> vec3 \<Rightarrow> mat3" where
  "rightJacobianInvSO3_spec epsilon phi =
     (if vec_norm phi \<le> epsilon then mat_identity
      else mat_add
             (mat_add mat_identity (mat_smul (hat phi) (1 / 2)))
             (mat_smul (mat_mul (hat phi) (hat phi))
                (1 / (vec_norm phi)\<^sup>2
                 - (1 + cos (vec_norm phi)) / (2 * vec_norm phi * sin (vec_norm phi)))))"

section \<open>Norms\<close>

lemma squaredNorm_nonneg: "0 \<le> squaredNorm phi"
  by (cases phi) simp

lemma vec_norm_nonneg: "0 \<le> vec_norm phi"
  by (simp add: vec_norm_def squaredNorm_nonneg)

lemma vec_norm_power2: "(vec_norm phi)\<^sup>2 = squaredNorm phi"
  by (simp add: vec_norm_def squaredNorm_nonneg)

lemma vec_norm_power3: "(vec_norm phi) ^ 3 = squaredNorm phi * vec_norm phi"
  by (simp add: power3_eq_cube power2_eq_square [symmetric] vec_norm_power2)

lemma squaredNorm_pos: "0 \<le> epsilon \<Longrightarrow> epsilon < vec_norm phi \<Longrightarrow> 0 < squaredNorm phi"
  using squaredNorm_nonneg [of phi] by (cases "squaredNorm phi = 0") (auto simp: vec_norm_def)

lemma vec_norm_axis: "vec_norm (a, 0, 0) = \<bar>a\<bar>"
  by (simp add: vec_norm_def)

lemma vec_norm_zero_iff: "vec_norm v = 0 \<longleftrightarrow> v = (0, 0, 0)"
proof -
  obtain x y z where v: "v = (x, y, z)" by (cases v)
  have "x * x + y * y + z * z = 0 \<longleftrightarrow> x = 0 \<and> y = 0 \<and> z = 0"
    by (metis add_nonneg_eq_0_iff mult_eq_0_iff zero_le_square add_nonneg_nonneg)
  then show ?thesis by (simp add: v vec_norm_def)
qed

lemma vec_smul_smul: "vec_smul a (vec_smul b v) = vec_smul (a * b) v"
  by (cases v) simp

lemma vec_smul_one: "vec_smul 1 v = v"
  by (cases v) simp

lemma vec_norm_smul: "vec_norm (vec_smul s v) = \<bar>s\<bar> * vec_norm v"
proof -
  obtain x y z where v: "v = (x, y, z)" by (cases v)
  have "squaredNorm (vec_smul s v) = s\<^sup>2 * squaredNorm v"
    by (simp add: v power2_eq_square algebra_simps)
  then show ?thesis
    by (simp add: vec_norm_def real_sqrt_mult)
qed

lemma epsilon_double_lt_pi: "1 / 10 ^ 10 < pi"
proof -
  have "(1::real) / 10 ^ 10 < 2" by simp
  then show ?thesis using pi_ge_two by (rule less_le_trans)
qed

section \<open>Matrix algebra\<close>

lemma mat3_cases:
  obtains a b c d e g h i j where "M = ((a, b, c), (d, e, g), (h, i, j :: real))"
  by (metis prod_cases3)

lemma mat_div_smul: "s \<noteq> 0 \<Longrightarrow> mat_div M s = Some (mat_smul M (1 / s))"
  by (cases M rule: mat3_cases) (simp add: mat_div_def mat_smul_def)

lemma mat_smul_smul: "mat_smul (mat_smul M a) b = mat_smul M (a * b)"
  by (cases M rule: mat3_cases) (simp add: mat_smul_def)

lemma mat_sub_smul: "mat_sub A (mat_smul M a) = mat_add A (mat_smul M (- a))"
  by (cases A rule: mat3_cases, cases M rule: mat3_cases) (simp add: mat_smul_def)

section \<open>The four Jacobians in closed form\<close>

lemma rightJacobianSO3_eq:
  assumes "0 \<le> epsilon"
  shows "rightJacobianSO3 epsilon phi = Some (rightJacobianSO3_spec epsilon phi)"
proof (cases "epsilon < vec_norm phi")
  case True
  have p: "squaredNorm phi \<noteq> 0" using squaredNorm_pos [OF assms True] by simp
  have n: "vec_norm phi \<noteq> 0" using True assms by simp
  show ?thesis using True p n
    unfolding rightJacobianSO3_def rightJacobianSO3_spec_def Let_def
      vec_norm_power2 vec_norm_power3
    by (simp add: mat_div_smul mat_smul_smul vec_norm_def [symmetric])
next
  case False
  then show ?thesis
    by (simp add: rightJacobianSO3_def rightJacobianSO3_spec_def Let_def vec_norm_def)
qed

lemma leftJacobianSO3_eq:
  assumes "0 \<le> epsilon"
  shows "leftJacobianSO3 epsilon phi =
     Some (if vec_norm phi \<le> epsilon then mat_identity
           else mat_add
                  (mat_add mat_identity
                     (mat_smul (hat phi) ((1 - cos (vec_norm phi)) / (vec_norm phi)\<^sup>2)))
                  (mat_smul (mat_mul (hat phi) (hat phi))
                     ((vec_norm phi - sin (vec_norm phi)) / (vec_norm phi) ^ 3)))"
proof (cases "epsilon < vec_norm phi")
  case True
  have p: "squaredNorm phi \<noteq> 0" using squaredNorm_pos [OF assms True] by simp
  have n: "vec_norm phi \<noteq> 0" using True assms by simp
  show ?thesis using True p n
    unfolding leftJacobianSO3_def Let_def vec_norm_power2 vec_norm_power3
    by (simp add: mat_div_smul mat_smul_smul vec_norm_def [symmetric])
next
  case False
  then show ?thesis
    by (simp add: leftJacobianSO3_def Let_def vec_norm_def)
qed

lemma rightJacobianInvSO3_eq:
  "rightJacobianInvSO3 epsilon phi =
     (if vec_norm phi \<le> epsilon then Some mat_identity
      else if sin (vec_norm phi) = 0 then None
      else Some (rightJacobianInvSO3_spec epsilon phi))"
proof (cases "epsilon < vec_norm phi")
  case True
  show ?thesis
  proof (cases "sin (vec_norm phi) = 0")
    case s: True
    show ?thesis using True s
      by (simp add: rightJacobianInvSO3_def Let_def scalar_div_def mat_div_smul
          vec_norm_def [symmetric])
  next
    case s: False
    then have n: "vec_norm phi \<noteq> 0" by auto
    then have p: "squaredNorm phi \<noteq> 0" by (auto simp: vec_norm_def)
    show ?thesis using True s n p
      unfolding rightJacobianInvSO3_def rightJacobianInvSO3_spec_def Let_def vec_norm_power2
      by (simp add: scalar_div_def mat_div_smul vec_norm_def [symmetric])
  qed
next
  case False
  then show ?thesis
    by (simp add: rightJacobianInvSO3_def Let_def vec_norm_def)
qed

lemma leftJacobianInvSO3_eq:
  "leftJacobianInvSO3 epsilon phi =
     (if vec_norm phi \<le> epsilon then Some mat_identity
      else if sin (vec_norm phi) = 0 then None
      else Some (mat_add
                  (mat_sub mat_identity (mat_smul (hat phi) (1 / 2)))
                  (mat_smul (mat_mul (hat phi) (hat phi))
                     (1 / (vec_norm phi)\<^sup>2
                      - (1 + cos (vec_norm phi)) / (2 * vec_norm phi * sin (vec_norm phi))))))"
proof (cases "epsilon < vec_norm phi")
  case True
  show ?thesis
  proof (cases "sin (vec_norm phi) = 0")
    case s: True
    show ?thesis using True s
      by (simp add: leftJacobianInvSO3_def Let_def scalar_div_def mat_div_smul
          vec_norm_def [symmetric])
  next
    case s: False
    then have n: "vec_norm phi \<noteq> 0" by auto
    then have p: "squaredNorm phi \<noteq> 0" by (auto simp: vec_norm_def)
    show ?thesis using True s n p
      unfolding leftJacobianInvSO3_def Let_def vec_norm_power2
      by (simp add: scalar_div_def mat_div_smul vec_norm_def [symmetric])
  qed
next
  case False
  then show ?thesis
    by (simp add: leftJacobianInvSO3_def Let_def vec_norm_def)
qed

section \<open>Blocks of the 6x6 Jacobians\<close>

lemma block3_cases:
  obtains a b c d e g h i j where "B = ((a, b, c), (d, e, g), (h, i, j :: entry))"
  by (metis prod_cases3)

lemma get_block3_corners:
  "get_block3 0 0 (set_block3 0 0 A (set_block3 3 3 B mat6_zero)) = A"
  "get_block3 3 3 (set_block3 0 0 A (set_block3 3 3 B mat6_zero)) = B"
  "get_block3 0 3 (set_block3 0 0 A (set_block3 3 3 B mat6_zero)) = real_block mat_zero"
  "get_block3 3 0 (set_block3 0 0 A (set_block3 3 3 B mat6_zero)) = real_block mat_zero"
  "map length (set_block3 0 0 A (set_block3 3 3 B mat6_zero)) = [6, 6, 6, 6, 6, 6]"
  by (cases A rule: block3_cases, cases B rule: block3_cases,
      simp add: mat6_zero_def mat_zero_def eval_nat_numeral)+

section \<open>Exponential and logarithm of rotations\<close>

lemma so3_exp_unit: "unit_so3 (so3_exp omega)"
proof (cases "vec_norm omega = 0")
  case True
  then show ?thesis by (simp add: so3_exp_def unit_so3_def)
next
  case False
  define t where "t = vec_norm omega"
  have "squaredNorm (vec_smul (sin (t / 2) / t) omega) = (sin (t / 2))\<^sup>2"
    using False vec_norm_smul [of "sin (t / 2) / t" omega]
    by (simp add: t_def [symmetric] vec_norm_power2 [symmetric] power_mult_distrib
        power_divide)
  then show ?thesis
    using False by (simp add: so3_exp_def unit_so3_def Let_def t_def [symmetric])
qed

lemma half_angle_identities:
  fixes t :: real
  shows "2 * (sin (t / 2))\<^sup>2 = 1 - cos t" and "2 * (sin (t / 2) * cos (t / 2)) = sin t"
proof -
  show "2 * (sin (t / 2))\<^sup>2 = 1 - cos t"
    using cos_double_sin [of "t / 2"] by simp
  show "2 * (sin (t / 2) * cos (t / 2)) = sin t"
    using sin_double [of "t / 2"] by simp
qed

lemma so3_matrix_exp:
  assumes "vec_norm omega \<noteq> 0"
  shows "so3_matrix (so3_exp omega) =
     mat_add
       (mat_add mat_identity (mat_smul (hat omega) (sin (vec_norm omega) / vec_norm omega)))
       (mat_smul (mat_mul (hat omega) (hat omega))
          ((1 - cos (vec_norm omega)) / (vec_norm omega)\<^sup>2))"
proof -
  define t where "t = vec_norm omega"
  define s where "s = sin (t / 2) / t"
  obtain x y z where w: "omega = (x, y, z)" by (cases omega)
  have tz: "t \<noteq> 0" using assms by (simp add: t_def)
  have a: "2 * (s * s) = (1 - cos t) / t\<^sup>2"
    using half_angle_identities(1) [of t] tz
    by (simp add: s_def power2_eq_square field_simps)
  have b: "2 * (s * cos (t / 2)) = sin t / t"
    using half_angle_identities(2) [of t] tz by (simp add: s_def field_simps)
  have e: "so3_exp omega = \<lparr>q_w = cos (t / 2), q_vec = (s * x, s * y, s * z)\<rparr>"
    using tz unfolding so3_exp_def Let_def t_def [symmetric] s_def [symmetric] by (simp add: w)
  have h: "so3_matrix \<lparr>q_w = cos (t / 2), q_vec = (s * x, s * y, s * z)\<rparr> =
     mat_add
       (mat_add mat_identity (mat_smul (hat (x, y, z)) (2 * (s * cos (t / 2)))))
       (mat_smul (mat_mul (hat (x, y, z)) (hat (x, y, z))) (2 * (s * s)))"
    by (simp add: so3_matrix_def mat_identity_def mat_smul_def Let_def algebra_simps)
  have "so3_matrix (so3_exp omega) =
     mat_add
       (mat_add mat_identity (mat_smul (hat (x, y, z)) (2 * (s * cos (t / 2)))))
       (mat_smul (mat_mul (hat (x, y, z)) (hat (x, y, z))) (2 * (s * s)))"
    by (simp only: e h)
  also have "\<dots> =
     mat_add
       (mat_add mat_identity (mat_smul (hat omega) (sin t / t)))
       (mat_smul (mat_mul (hat omega) (hat omega)) ((1 - cos t) / t\<^sup>2))"
    by (simp only: a b w)
  finally show ?thesis by (simp only: t_def)
qed

lemma so3_matrix_neg:
  "so3_matrix \<lparr>q_w = - w, q_vec = vec_smul (- 1) v\<rparr> = so3_matrix \<lparr>q_w = w, q_vec = v\<rparr>"
  by (cases v) (simp add: so3_matrix_def)

text \<open>The rotation by a quarter turn about the first axis.\<close>

lemma so3_exp_quarter_turn:
  "so3_exp (pi / 2, 0, 0) = \<lparr>q_w = sqrt 2 / 2, q_vec = (sqrt 2 / 2, 0, 0)\<rparr>"
proof -
  have n: "vec_norm (pi / 2, 0, 0) = pi / 2" by (simp add: vec_norm_axis)
  have q: "pi / 2 / 2 = pi / 4" by simp
  show ?thesis
    by (simp add: so3_exp_def n Let_def q cos_45 sin_45)
qed


lemma cos_sin_arctan_unit:
  fixes n w :: real
  assumes u: "w\<^sup>2 + n\<^sup>2 = 1" and w: "w \<noteq> 0"
  shows "cos (arctan (n / w)) = \<bar>w\<bar>" and "sin (arctan (n / w)) = n * \<bar>w\<bar> / w"
proof -
  have "1 + (n / w)\<^sup>2 = 1 / w\<^sup>2"
    using u w by (simp add: field_simps power2_eq_square)
  then have r: "sqrt (1 + (n / w)\<^sup>2) = 1 / \<bar>w\<bar>"
    by (simp add: real_sqrt_divide)
  show "cos (arctan (n / w)) = \<bar>w\<bar>"
    by (simp add: cos_arctan r)
  show "sin (arctan (n / w)) = n * \<bar>w\<bar> / w"
    by (simp add: sin_arctan r)
qed

lemma so3_exp_log:
  assumes "unit_so3 q"
  shows "so3_exp (so3_log q) =
     (if 0 \<le> q_w q then q else \<lparr>q_w = - q_w q, q_vec = vec_smul (- 1) (q_vec q)\<rparr>)"
proof -
  define w where "w = q_w q"
  define v where "v = q_vec q"
  define n where "n = vec_norm v"
  have q: "q = \<lparr>q_w = w, q_vec = v\<rparr>" by (simp add: w_def v_def)
  have u: "w\<^sup>2 + n\<^sup>2 = 1"
    using assms by (simp add: unit_so3_def w_def v_def n_def vec_norm_power2)
  have n0: "0 \<le> n" by (simp add: n_def vec_norm_nonneg)
  show ?thesis
  proof (cases "n = 0")
    case True
    then have v0: "v = (0, 0, 0)" by (simp add: n_def vec_norm_zero_iff)
    from True u have "w\<^sup>2 = 1" by simp
    then have "w = 1 \<or> w = - 1" by (simp add: power2_eq_1_iff)
    then show ?thesis
      using True by (auto simp: q so3_log_def so3_exp_def v0 vec_norm_axis)
  next
    case nz: False
    show ?thesis
    proof (cases "w = 0")
      case True
      with u have "n\<^sup>2 = 1" by simp
      with n0 have n1: "n = 1" by (simp add: power2_eq_1_iff)
      have "vec_norm (vec_smul pi v) = pi"
        by (simp add: vec_norm_smul n_def [symmetric] n1)
      then show ?thesis
        using True nz n1
        by (simp add: q so3_log_def so3_exp_def Let_def n_def [symmetric] vec_smul_smul
            vec_smul_one)
    next
      case wz: False
      define a where "a = arctan (n / w)"
      have az: "a \<noteq> 0" using nz wz by (simp add: a_def arctan_eq_zero_iff)
      have ln: "vec_norm (vec_smul (2 * a / n) v) = 2 * \<bar>a\<bar>"
        using nz n0 by (simp add: vec_norm_smul n_def [symmetric] abs_mult)
      have ca: "cos \<bar>a\<bar> = \<bar>w\<bar>"
        using cos_sin_arctan_unit(1) [OF u wz] by (simp add: a_def)
      have sa: "sin \<bar>a\<bar> * a / \<bar>a\<bar> = n * \<bar>w\<bar> / w"
        using cos_sin_arctan_unit(2) [OF u wz] az
        by (cases "0 \<le> a") (simp_all add: a_def [symmetric] abs_if)
      have k: "sin \<bar>a\<bar> / (2 * \<bar>a\<bar>) * (2 * a / n) = \<bar>w\<bar> / w"
      proof -
        have "sin \<bar>a\<bar> / (2 * \<bar>a\<bar>) * (2 * a / n) = (sin \<bar>a\<bar> * a / \<bar>a\<bar>) / n"
          using az nz by (simp add: field_simps)
        also have "\<dots> = \<bar>w\<bar> / w" using nz by (simp add: sa)
        finally show ?thesis .
      qed
      have ca': "cos a = \<bar>w\<bar>" using ca by simp
      have k': "sin \<bar>a\<bar> * a / (\<bar>a\<bar> * n) = \<bar>w\<bar> / w" using k by simp
      have e: "so3_exp (so3_log q) = \<lparr>q_w = \<bar>w\<bar>, q_vec = vec_smul (\<bar>w\<bar> / w) v\<rparr>"
        using nz wz az
        by (simp add: q so3_log_def so3_exp_def Let_def n_def [symmetric] a_def [symmetric]
            ln ca' vec_smul_smul k')
      show ?thesis
        unfolding e w_def [symmetric] v_def [symmetric]
        using wz by (cases "0 \<le> w") (simp_all add: q vec_smul_one abs_if)
    qed
  qed
qed

lemma head3_logd: "head3 (logd T) = translation T"
  by (cases "so3_log (so3 T)", cases "translation T") (simp add: logd_def)

lemma tail3_logd: "tail3 (logd T) = so3_log (so3 T)"
  by (cases "so3_log (so3 T)", cases "translation T") (simp add: logd_def)


section \<open>Claims\<close>

text \<open>
  C1. For a threshold that is not negative and every 3-vector \<open>phi\<close>, \<open>rightJacobianSO3\<close>
  returns the matrix of the specification: the identity when the norm of \<open>phi\<close> is at or
  below the threshold, and otherwise
  \<open>I - hat phi * (1 - cos n) / n\<^sup>2 + (hat phi)\<^sup>2 * (n - sin n) / n ^ 3\<close> with \<open>n\<close> the norm.
  At \<open>(0, 0, 0)\<close> the result is the identity, and at \<open>(pi, 0, 0)\<close>, for a threshold below
  \<open>pi\<close>, it is that closed form, whose value is
  \<open>((1, 0, 0), (0, 0, 2 / pi), (0, - 2 / pi, 0))\<close>.
\<close>

theorem rightJacobianSO3_closed_form:
  assumes "0 \<le> epsilon"
  shows "rightJacobianSO3 epsilon phi = Some (rightJacobianSO3_spec epsilon phi)
    \<and> rightJacobianSO3_spec epsilon phi =
        (if vec_norm phi \<le> epsilon then mat_identity
         else mat_add
                (mat_sub mat_identity
                   (mat_smul (hat phi) ((1 - cos (vec_norm phi)) / (vec_norm phi)\<^sup>2)))
                (mat_smul (mat_mul (hat phi) (hat phi))
                   ((vec_norm phi - sin (vec_norm phi)) / (vec_norm phi) ^ 3)))
    \<and> rightJacobianSO3 epsilon (0, 0, 0) = Some mat_identity
    \<and> (epsilon < pi \<longrightarrow>
         rightJacobianSO3 epsilon (pi, 0, 0) =
           Some (mat_add
                  (mat_sub mat_identity (mat_smul (hat (pi, 0, 0)) ((1 - cos pi) / pi\<^sup>2)))
                  (mat_smul (mat_mul (hat (pi, 0, 0)) (hat (pi, 0, 0))) ((pi - sin pi) / pi ^ 3)))
         \<and> rightJacobianSO3 epsilon (pi, 0, 0) =
           Some ((1, 0, 0), (0, 0, 2 / pi), (0, - (2 / pi), 0)))"
proof (intro conjI impI)
  show "rightJacobianSO3 epsilon phi = Some (rightJacobianSO3_spec epsilon phi)"
    using assms by (rule rightJacobianSO3_eq)
  show "rightJacobianSO3_spec epsilon phi =
        (if vec_norm phi \<le> epsilon then mat_identity
         else mat_add
                (mat_sub mat_identity
                   (mat_smul (hat phi) ((1 - cos (vec_norm phi)) / (vec_norm phi)\<^sup>2)))
                (mat_smul (mat_mul (hat phi) (hat phi))
                   ((vec_norm phi - sin (vec_norm phi)) / (vec_norm phi) ^ 3)))"
    by (simp add: rightJacobianSO3_spec_def)
  show "rightJacobianSO3 epsilon (0, 0, 0) = Some mat_identity"
    using assms by (simp add: rightJacobianSO3_eq rightJacobianSO3_spec_def vec_norm_axis)
next
  assume lt: "epsilon < pi"
  have n: "vec_norm (pi, 0, 0) = pi" by (simp add: vec_norm_axis)
  show "rightJacobianSO3 epsilon (pi, 0, 0) =
           Some (mat_add
                  (mat_sub mat_identity (mat_smul (hat (pi, 0, 0)) ((1 - cos pi) / pi\<^sup>2)))
                  (mat_smul (mat_mul (hat (pi, 0, 0)) (hat (pi, 0, 0))) ((pi - sin pi) / pi ^ 3)))"
    using lt by (simp only: rightJacobianSO3_eq [OF assms] rightJacobianSO3_spec_def n) simp
  show "rightJacobianSO3 epsilon (pi, 0, 0) = Some ((1, 0, 0), (0, 0, 2 / pi), (0, - (2 / pi), 0))"
    using lt
    by (simp add: rightJacobianSO3_eq [OF assms] rightJacobianSO3_spec_def n mat_identity_def
        mat_smul_def power2_eq_square power3_eq_cube)
qed

theorem rightJacobianSO3_closed_form_witness:
  "(0::real) \<le> 1 / 10 ^ 10
   \<and> rightJacobianSO3 (1 / 10 ^ 10) (0, 0, 0) = Some ((1, 0, 0), (0, 1, 0), (0, 0, 1))
   \<and> rightJacobianSO3 (1 / 10 ^ 10) (pi, 0, 0) = Some ((1, 0, 0), (0, 0, 2 / pi), (0, - (2 / pi), 0))"
proof -
  have h: "(0::real) \<le> 1 / 10 ^ 10" by simp
  note t = rightJacobianSO3_closed_form [OF h, where phi = "(0, 0, 0)"]
  from t have a: "rightJacobianSO3 (1 / 10 ^ 10) (0, 0, 0) = Some mat_identity"
    by blast
  from t epsilon_double_lt_pi
  have b: "rightJacobianSO3 (1 / 10 ^ 10) (pi, 0, 0)
      = Some ((1, 0, 0), (0, 0, 2 / pi), (0, - (2 / pi), 0))"
    by blast
  show ?thesis using h a b by (simp only: mat_identity_def simp_thms)
qed

text \<open>
  C2. For every 3-vector \<open>phi\<close>, \<open>rightJacobianInvSO3\<close> returns the identity when the norm
  \<open>n\<close> of \<open>phi\<close> is at or below the threshold, and otherwise
  \<open>I + hat phi / 2 + (hat phi)\<^sup>2 * (1 / n\<^sup>2 - (1 + cos n) / (2 * n * sin n))\<close>. Where
  \<open>sin n = 0\<close> beyond the threshold, the denominator of that formula is zero, and the code,
  which divides by it, has no value either.
\<close>

theorem rightJacobianInvSO3_closed_form:
  "rightJacobianInvSO3 epsilon phi =
     (if vec_norm phi \<le> epsilon then Some mat_identity
      else if sin (vec_norm phi) = 0 then None
      else Some (mat_add
                  (mat_add mat_identity (mat_smul (hat phi) (1 / 2)))
                  (mat_smul (mat_mul (hat phi) (hat phi))
                     (1 / (vec_norm phi)\<^sup>2
                      - (1 + cos (vec_norm phi)) / (2 * vec_norm phi * sin (vec_norm phi))))))
   \<and> (sin (vec_norm phi) \<noteq> 0 \<longrightarrow>
        rightJacobianInvSO3 epsilon phi = Some (rightJacobianInvSO3_spec epsilon phi))"
  by (simp add: rightJacobianInvSO3_eq rightJacobianInvSO3_spec_def)

theorem rightJacobianInvSO3_closed_form_witness:
  "sin (vec_norm (pi / 2, 0, 0)) \<noteq> 0
   \<and> rightJacobianInvSO3 (1 / 10 ^ 10) (pi / 2, 0, 0) =
       Some (rightJacobianInvSO3_spec (1 / 10 ^ 10) (pi / 2, 0, 0))
   \<and> rightJacobianInvSO3 (1 / 10 ^ 10) (pi / 2, 0, 0) =
       Some ((1, 0, 0), (0, pi / 4, - (pi / 4)), (0, pi / 4, pi / 4))"
proof -
  have n: "vec_norm (pi / 2, 0, 0) = pi / 2" by (simp add: vec_norm_axis)
  have lt: "\<not> pi / 2 \<le> 1 / 10 ^ 10" using pi_ge_two by simp
  have s: "sin (vec_norm (pi / 2, 0, 0)) \<noteq> 0" by (simp add: n)
  from s rightJacobianInvSO3_closed_form [where epsilon = "1 / 10 ^ 10" and phi = "(pi / 2, 0, 0)"]
  have a: "rightJacobianInvSO3 (1 / 10 ^ 10) (pi / 2, 0, 0) =
       Some (rightJacobianInvSO3_spec (1 / 10 ^ 10) (pi / 2, 0, 0))"
    by blast
  have v: "rightJacobianInvSO3_spec (1 / 10 ^ 10) (pi / 2, 0, 0) =
       ((1, 0, 0), (0, pi / 4, - (pi / 4)), (0, pi / 4, pi / 4))"
    using lt
    by (simp add: rightJacobianInvSO3_spec_def n mat_identity_def mat_smul_def
        power2_eq_square field_simps)
  show ?thesis using s a v by simp
qed




text \<open>
  C6. The left variants are the right variants with the sign of the linear term flipped:
  with \<open>n\<close> the norm of \<open>phi\<close>, beyond the threshold \<open>rightJacobianSO3\<close> subtracts
  \<open>hat phi * (1 - cos n) / n\<^sup>2\<close> where \<open>leftJacobianSO3\<close> adds it, and
  \<open>rightJacobianInvSO3\<close> adds \<open>hat phi / 2\<close> where \<open>leftJacobianInvSO3\<close> subtracts it;
  the coefficients and the term in \<open>(hat phi)\<^sup>2\<close> are the same. At or below the threshold
  all of them return the identity. The two inverse variants have a value for the same
  inputs.
\<close>

theorem left_jacobians_flip_linear_term:
  assumes "0 \<le> epsilon"
  shows "rightJacobianSO3 epsilon phi =
      Some (if vec_norm phi \<le> epsilon then mat_identity
            else mat_add
                   (mat_sub mat_identity
                      (mat_smul (hat phi) ((1 - cos (vec_norm phi)) / (vec_norm phi)\<^sup>2)))
                   (mat_smul (mat_mul (hat phi) (hat phi))
                      ((vec_norm phi - sin (vec_norm phi)) / (vec_norm phi) ^ 3)))
    \<and> leftJacobianSO3 epsilon phi =
      Some (if vec_norm phi \<le> epsilon then mat_identity
            else mat_add
                   (mat_add mat_identity
                      (mat_smul (hat phi) ((1 - cos (vec_norm phi)) / (vec_norm phi)\<^sup>2)))
                   (mat_smul (mat_mul (hat phi) (hat phi))
                      ((vec_norm phi - sin (vec_norm phi)) / (vec_norm phi) ^ 3)))
    \<and> rightJacobianInvSO3 epsilon phi =
      (if vec_norm phi \<le> epsilon then Some mat_identity
       else if sin (vec_norm phi) = 0 then None
       else Some (mat_add
                   (mat_add mat_identity (mat_smul (hat phi) (1 / 2)))
                   (mat_smul (mat_mul (hat phi) (hat phi))
                      (1 / (vec_norm phi)\<^sup>2
                       - (1 + cos (vec_norm phi)) / (2 * vec_norm phi * sin (vec_norm phi))))))
    \<and> leftJacobianInvSO3 epsilon phi =
      (if vec_norm phi \<le> epsilon then Some mat_identity
       else if sin (vec_norm phi) = 0 then None
       else Some (mat_add
                   (mat_sub mat_identity (mat_smul (hat phi) (1 / 2)))
                   (mat_smul (mat_mul (hat phi) (hat phi))
                      (1 / (vec_norm phi)\<^sup>2
                       - (1 + cos (vec_norm phi)) / (2 * vec_norm phi * sin (vec_norm phi))))))"
  using assms
  by (simp add: rightJacobianSO3_eq leftJacobianSO3_eq rightJacobianInvSO3_eq
      leftJacobianInvSO3_eq rightJacobianSO3_spec_def rightJacobianInvSO3_spec_def)

theorem left_jacobians_flip_linear_term_witness:
  "(0::real) \<le> 1 / 10 ^ 10
   \<and> rightJacobianSO3 (1 / 10 ^ 10) (pi / 2, 0, 0)
       = Some ((1, 0, 0), (0, 2 / pi, 2 / pi), (0, - (2 / pi), 2 / pi))
   \<and> leftJacobianSO3 (1 / 10 ^ 10) (pi / 2, 0, 0)
       = Some ((1, 0, 0), (0, 2 / pi, - (2 / pi)), (0, 2 / pi, 2 / pi))
   \<and> rightJacobianInvSO3 (1 / 10 ^ 10) (pi / 2, 0, 0)
       = Some ((1, 0, 0), (0, pi / 4, - (pi / 4)), (0, pi / 4, pi / 4))
   \<and> leftJacobianInvSO3 (1 / 10 ^ 10) (pi / 2, 0, 0)
       = Some ((1, 0, 0), (0, pi / 4, pi / 4), (0, - (pi / 4), pi / 4))"
proof -
  have h: "(0::real) \<le> 1 / 10 ^ 10" by simp
  have n: "vec_norm (pi / 2, 0, 0) = pi / 2" by (simp add: vec_norm_axis)
  have lt: "\<not> pi / 2 \<le> 1 / 10 ^ 10" using pi_ge_two by simp
  note t = left_jacobians_flip_linear_term [OF h, where phi = "(pi / 2, 0, 0)", unfolded n]
  show ?thesis
    using lt h t
    by (simp add: mat_identity_def mat_smul_def power2_eq_square power3_eq_cube field_simps)
qed

text \<open>
  C7. For every 6-vector \<open>phi\<close> with \<open>omega\<close> its last three components,
  \<open>rightJacobianSE3Decoupled\<close> returns a 6x6 matrix whose top-left block is the matrix of
  the inverse of \<open>so3_exp omega\<close>, whose bottom-right block is what \<open>rightJacobianSO3\<close>
  writes for \<open>omega\<close> and whose other two blocks are zero. \<open>rightJacobianInvSE3Decoupled\<close>
  returns the same layout, with the matrix of \<open>so3_exp omega\<close> (not inverted) at the top
  left and what \<open>rightJacobianInvSO3\<close> writes for \<open>omega\<close> at the bottom right. The
  top-left block and the zero blocks are there whatever the Jacobian of SO(3) does. The
  bottom-right block is the closed form of \<open>rightJacobianSO3\<close> when the threshold is not
  negative, and the closed form of \<open>rightJacobianInvSO3\<close> when the norm of \<open>omega\<close> is at
  or below the threshold or has a nonzero sine.
\<close>

theorem se3_decoupled_block_layout:
  "topLeftCorner (rightJacobianSE3Decoupled epsilon phi)
      = real_block (so3_matrix (so3_inverse (so3_exp (tail3 phi))))
   \<and> bottomRightCorner (rightJacobianSE3Decoupled epsilon phi)
      = written_block (rightJacobianSO3 epsilon (tail3 phi))
   \<and> topRightCorner (rightJacobianSE3Decoupled epsilon phi) = real_block mat_zero
   \<and> bottomLeftCorner (rightJacobianSE3Decoupled epsilon phi) = real_block mat_zero
   \<and> map length (rightJacobianSE3Decoupled epsilon phi) = [6, 6, 6, 6, 6, 6]
   \<and> topLeftCorner (rightJacobianInvSE3Decoupled epsilon phi)
      = real_block (so3_matrix (so3_exp (tail3 phi)))
   \<and> bottomRightCorner (rightJacobianInvSE3Decoupled epsilon phi)
      = written_block (rightJacobianInvSO3 epsilon (tail3 phi))
   \<and> topRightCorner (rightJacobianInvSE3Decoupled epsilon phi) = real_block mat_zero
   \<and> bottomLeftCorner (rightJacobianInvSE3Decoupled epsilon phi) = real_block mat_zero
   \<and> map length (rightJacobianInvSE3Decoupled epsilon phi) = [6, 6, 6, 6, 6, 6]
   \<and> (0 \<le> epsilon \<longrightarrow>
        bottomRightCorner (rightJacobianSE3Decoupled epsilon phi)
          = real_block (rightJacobianSO3_spec epsilon (tail3 phi)))
   \<and> (vec_norm (tail3 phi) \<le> epsilon \<or> sin (vec_norm (tail3 phi)) \<noteq> 0 \<longrightarrow>
        bottomRightCorner (rightJacobianInvSE3Decoupled epsilon phi)
          = real_block (rightJacobianInvSO3_spec epsilon (tail3 phi)))"
  by (simp add: rightJacobianSE3Decoupled_def rightJacobianInvSE3Decoupled_def Let_def
      topLeftCorner_def bottomRightCorner_def topRightCorner_def bottomLeftCorner_def
      get_block3_corners rightJacobianSO3_eq rightJacobianInvSO3_eq written_block_def
      rightJacobianInvSO3_spec_def
      del: get_block3.simps set_block3.simps)

theorem se3_decoupled_block_layout_witness:
  "(0::real) \<le> 1 / 10 ^ 10
   \<and> sin (vec_norm (tail3 (1, 2, 3, pi / 2, 0, 0))) \<noteq> 0
   \<and> topLeftCorner (rightJacobianSE3Decoupled (1 / 10 ^ 10) (1, 2, 3, pi / 2, 0, 0))
       = real_block ((1, 0, 0), (0, 0, 1), (0, - 1, 0))
   \<and> bottomRightCorner (rightJacobianSE3Decoupled (1 / 10 ^ 10) (1, 2, 3, pi / 2, 0, 0))
       = real_block ((1, 0, 0), (0, 2 / pi, 2 / pi), (0, - (2 / pi), 2 / pi))
   \<and> topRightCorner (rightJacobianSE3Decoupled (1 / 10 ^ 10) (1, 2, 3, pi / 2, 0, 0))
       = real_block mat_zero
   \<and> bottomLeftCorner (rightJacobianSE3Decoupled (1 / 10 ^ 10) (1, 2, 3, pi / 2, 0, 0))
       = real_block mat_zero
   \<and> topLeftCorner (rightJacobianInvSE3Decoupled (1 / 10 ^ 10) (1, 2, 3, pi / 2, 0, 0))
       = real_block ((1, 0, 0), (0, 0, - 1), (0, 1, 0))
   \<and> bottomRightCorner (rightJacobianInvSE3Decoupled (1 / 10 ^ 10) (1, 2, 3, pi / 2, 0, 0))
       = real_block ((1, 0, 0), (0, pi / 4, - (pi / 4)), (0, pi / 4, pi / 4))
   \<and> topRightCorner (rightJacobianInvSE3Decoupled (1 / 10 ^ 10) (1, 2, 3, pi / 2, 0, 0))
       = real_block mat_zero
   \<and> bottomLeftCorner (rightJacobianInvSE3Decoupled (1 / 10 ^ 10) (1, 2, 3, pi / 2, 0, 0))
       = real_block mat_zero
   \<and> rightJacobianInvSE3Decoupled (1 / 10 ^ 10) (1, 2, 3, pi / 2, 0, 0) =
       [[Some 1, Some 0, Some 0, Some 0, Some 0, Some 0],
        [Some 0, Some 0, Some (- 1), Some 0, Some 0, Some 0],
        [Some 0, Some 1, Some 0, Some 0, Some 0, Some 0],
        [Some 0, Some 0, Some 0, Some 1, Some 0, Some 0],
        [Some 0, Some 0, Some 0, Some 0, Some (pi / 4), Some (- (pi / 4))],
        [Some 0, Some 0, Some 0, Some 0, Some (pi / 4), Some (pi / 4)]]"
proof -
  have h: "(0::real) \<le> 1 / 10 ^ 10" by simp
  have t3: "tail3 (1, 2, 3, pi / 2, 0, 0) = (pi / 2, 0, 0)" by simp
  have n: "vec_norm (pi / 2, 0, 0) = pi / 2" by (simp add: vec_norm_axis)
  have lt: "\<not> pi / 2 \<le> 1 / 10 ^ 10" using pi_ge_two by simp
  have s: "sin (vec_norm (tail3 (1, 2, 3, pi / 2, 0, 0))) \<noteq> 0" by (simp add: n)
  have R: "so3_matrix (so3_exp (pi / 2, 0, 0)) = ((1, 0, 0), (0, 0, - 1), (0, 1, 0))"
    by (simp add: so3_exp_quarter_turn so3_matrix_def)
  have R': "so3_matrix (so3_inverse (so3_exp (pi / 2, 0, 0))) = ((1, 0, 0), (0, 0, 1), (0, - 1, 0))"
    by (simp add: so3_exp_quarter_turn so3_inverse_def so3_matrix_def)
  have B: "rightJacobianSO3_spec (1 / 10 ^ 10) (pi / 2, 0, 0)
      = ((1, 0, 0), (0, 2 / pi, 2 / pi), (0, - (2 / pi), 2 / pi))"
    using lt
    by (simp add: rightJacobianSO3_spec_def n mat_identity_def mat_smul_def
        power2_eq_square power3_eq_cube field_simps)
  have B': "rightJacobianInvSO3_spec (1 / 10 ^ 10) (pi / 2, 0, 0)
      = ((1, 0, 0), (0, pi / 4, - (pi / 4)), (0, pi / 4, pi / 4))"
    using lt
    by (simp add: rightJacobianInvSO3_spec_def n mat_identity_def mat_smul_def
        power2_eq_square field_simps)
  note t = se3_decoupled_block_layout
    [where epsilon = "1 / 10 ^ 10" and phi = "(1, 2, 3, pi / 2, 0, 0)", unfolded t3 R R']
  from t h s [unfolded t3]
  have b: "bottomRightCorner (rightJacobianSE3Decoupled (1 / 10 ^ 10) (1, 2, 3, pi / 2, 0, 0))
       = real_block (rightJacobianSO3_spec (1 / 10 ^ 10) (pi / 2, 0, 0))"
    and b': "bottomRightCorner (rightJacobianInvSE3Decoupled (1 / 10 ^ 10) (1, 2, 3, pi / 2, 0, 0))
       = real_block (rightJacobianInvSO3_spec (1 / 10 ^ 10) (pi / 2, 0, 0))"
    by blast+
  have I: "rightJacobianInvSO3 (1 / 10 ^ 10) (pi / 2, 0, 0)
      = Some ((1, 0, 0), (0, pi / 4, - (pi / 4)), (0, pi / 4, pi / 4))"
    using lt rightJacobianInvSO3_eq [of "1 / 10 ^ 10" "(pi / 2, 0, 0)"] B' by (simp add: n)
  have full: "rightJacobianInvSE3Decoupled (1 / 10 ^ 10) (1, 2, 3, pi / 2, 0, 0) =
       [[Some 1, Some 0, Some 0, Some 0, Some 0, Some 0],
        [Some 0, Some 0, Some (- 1), Some 0, Some 0, Some 0],
        [Some 0, Some 1, Some 0, Some 0, Some 0, Some 0],
        [Some 0, Some 0, Some 0, Some 1, Some 0, Some 0],
        [Some 0, Some 0, Some 0, Some 0, Some (pi / 4), Some (- (pi / 4))],
        [Some 0, Some 0, Some 0, Some 0, Some (pi / 4), Some (pi / 4)]]"
    unfolding rightJacobianInvSE3Decoupled_def Let_def t3 R I
    by (simp add: written_block_def mat6_zero_def eval_nat_numeral)
  show ?thesis
    using h s t b [unfolded B] b' [unfolded B'] full by blast
qed

text \<open>
  C9. For every rigid transform \<open>T\<close> (its rotation a unit quaternion), \<open>expd (logd T)\<close> is
  \<open>T\<close> again: the translation is the same and the rotation has the same matrix, whatever
  its angle. The quaternion itself is the same when its scalar part is not negative and
  the opposite one, which is the same rotation, otherwise.
\<close>

theorem expd_logd_roundtrip:
  assumes "unit_so3 (so3 T)"
  shows "translation (expd (logd T)) = translation T
       \<and> so3_matrix (so3 (expd (logd T))) = so3_matrix (so3 T)
       \<and> so3 (expd (logd T)) =
           (if 0 \<le> q_w (so3 T) then so3 T
            else \<lparr>q_w = - q_w (so3 T), q_vec = vec_smul (- 1) (q_vec (so3 T))\<rparr>)
       \<and> unit_so3 (so3 (expd (logd T)))"
proof -
  have e: "so3 (expd (logd T)) = so3_exp (so3_log (so3 T))"
    by (simp add: expd_def tail3_logd)
  have 1: "translation (expd (logd T)) = translation T"
    by (simp add: expd_def head3_logd)
  have 3: "so3 (expd (logd T)) =
           (if 0 \<le> q_w (so3 T) then so3 T
            else \<lparr>q_w = - q_w (so3 T), q_vec = vec_smul (- 1) (q_vec (so3 T))\<rparr>)"
    unfolding e using assms by (rule so3_exp_log)
  have 2: "so3_matrix (so3 (expd (logd T))) = so3_matrix (so3 T)"
    unfolding 3 by (cases "q_vec (so3 T)") (simp add: so3_matrix_def Let_def)
  have 4: "unit_so3 (so3 (expd (logd T)))"
    unfolding e by (rule so3_exp_unit)
  show ?thesis using 1 2 3 4 by (intro conjI)
qed

theorem expd_logd_roundtrip_witness:
  "unit_so3 (so3 \<lparr>so3 = \<lparr>q_w = - (3 / 5), q_vec = (4 / 5, 0, 0)\<rparr>, translation = (1, 2, 3)\<rparr>)
   \<and> translation (expd (logd \<lparr>so3 = \<lparr>q_w = - (3 / 5), q_vec = (4 / 5, 0, 0)\<rparr>,
         translation = (1, 2, 3)\<rparr>)) = (1, 2, 3)
   \<and> so3_matrix (so3 (expd (logd \<lparr>so3 = \<lparr>q_w = - (3 / 5), q_vec = (4 / 5, 0, 0)\<rparr>,
         translation = (1, 2, 3)\<rparr>)))
       = ((1, 0, 0), (0, - (7 / 25), 24 / 25), (0, - (24 / 25), - (7 / 25)))"
proof -
  define T where "T = \<lparr>so3 = \<lparr>q_w = - (3 / 5), q_vec = (4 / 5, 0, 0)\<rparr>, translation = (1, 2, 3)\<rparr>"
  have h: "unit_so3 (so3 T)"
    by (simp add: T_def unit_so3_def power2_eq_square)
  have m: "so3_matrix (so3 T) = ((1, 0, 0), (0, - (7 / 25), 24 / 25), (0, - (24 / 25), - (7 / 25)))"
    by (simp add: T_def so3_matrix_def)
  have t: "translation T = (1, 2, 3)" by (simp add: T_def)
  from expd_logd_roundtrip [OF h]
  have a: "translation (expd (logd T)) = translation T"
    and b: "so3_matrix (so3 (expd (logd T))) = so3_matrix (so3 T)"
    by blast+
  show ?thesis
    using h a [unfolded t] b [unfolded m] unfolding T_def by blast
qed

text \<open>
  C10. The four SO(3) Jacobians test the same strict inequality \<open>epsilon < phi_norm\<close>
  against the same threshold: for a \<open>phi\<close> whose norm equals the threshold, each of them
  returns the identity.
\<close>

theorem epsilon_boundary_identity:
  assumes "vec_norm phi = epsilon"
  shows "rightJacobianSO3 epsilon phi = Some mat_identity
       \<and> rightJacobianInvSO3 epsilon phi = Some mat_identity
       \<and> leftJacobianSO3 epsilon phi = Some mat_identity
       \<and> leftJacobianInvSO3 epsilon phi = Some mat_identity"
  using assms
  by (simp add: rightJacobianSO3_def rightJacobianInvSO3_def leftJacobianSO3_def
      leftJacobianInvSO3_def vec_norm_def Let_def)

theorem epsilon_boundary_identity_witness:
  "vec_norm (1 / 10 ^ 10, 0, 0) = 1 / 10 ^ 10
   \<and> rightJacobianSO3 (1 / 10 ^ 10) (1 / 10 ^ 10, 0, 0) = Some mat_identity
   \<and> rightJacobianInvSO3 (1 / 10 ^ 10) (1 / 10 ^ 10, 0, 0) = Some mat_identity
   \<and> leftJacobianSO3 (1 / 10 ^ 10) (1 / 10 ^ 10, 0, 0) = Some mat_identity
   \<and> leftJacobianInvSO3 (1 / 10 ^ 10) (1 / 10 ^ 10, 0, 0) = Some mat_identity"
proof -
  have h: "vec_norm (1 / 10 ^ 10, 0, 0) = 1 / 10 ^ 10" by (simp add: vec_norm_axis)
  show ?thesis using h epsilon_boundary_identity [OF h] by (simp only: simp_thms)
qed

end
